theory Spec2Isabelle
  imports Complex_Main "HOL-Library.Log_Nat" "HOL-Library.Multiset" "HOL-Library.AList"
begin

text \<open>
  The budget tracker is a React client: \<open>AuthProvider\<close> keeps the session token, and
  \<open>BudgetTracker\<close> keeps the month, the summary, the transactions and the budgets it
  fetches from the service, with the totals it derives from them. This theory embeds the
  state of the two components and the functions that change it, and proves what they do to
  that state.
\<close>

section \<open>JavaScript numbers\<close>

text \<open>
  Every amount, percentage and identifier of the dashboard is a JavaScript \<open>number\<close>, an
  IEEE 754 binary64 value. A finite value is modelled by the rational it denotes; the two
  zeros are identified (they are \<open>===\<close>, and the code never divides by a sum or applies
  \<open>Object.is\<close> to a number). Arithmetic computes the exact rational result and rounds it
  to the nearest representable value, ties to even, with 53 bits of precision, a smallest
  unit of \<open>2^-1074\<close> and overflow to an infinity from \<open>2^1024\<close> on.
\<close>

datatype js_number = NaN | PosInfinity | NegInfinity | Finite rat

definition pow2 :: "int \<Rightarrow> rat" where
  "pow2 k = (if 0 \<le> k then 2 ^ nat k else 1 / 2 ^ nat (- k))"

text \<open>The binary exponent of a positive rational: the \<open>k\<close> with \<open>2^k \<le> q < 2^(k+1)\<close>.\<close>

definition floor_log2 :: "rat \<Rightarrow> int" where
  "floor_log2 q =
     (let k = bitlen (fst (quotient_of q)) - bitlen (snd (quotient_of q))
      in if pow2 k \<le> q then k else k - 1)"

definition round_half_even :: "rat \<Rightarrow> int" where
  "round_half_even x =
     (let f = \<lfloor>x\<rfloor>; r = x - of_int f
      in if r < 1 / 2 then f else if 1 / 2 < r then f + 1 else if even f then f else f + 1)"

definition round_double :: "rat \<Rightarrow> js_number" where
  "round_double q =
     (if q = 0 then Finite 0
      else let e = max (floor_log2 \<bar>q\<bar> - 52) (- 1074);
               r = of_int (round_half_even (q / pow2 e)) * pow2 e
           in if r \<noteq> 0 \<and> 1024 \<le> floor_log2 \<bar>r\<bar>
              then (if 0 < q then PosInfinity else NegInfinity)
              else Finite r)"

text \<open>The operator \<open>+\<close> on two numbers.\<close>

fun js_add :: "js_number \<Rightarrow> js_number \<Rightarrow> js_number" where
  "js_add NaN _ = NaN"
| "js_add _ NaN = NaN"
| "js_add PosInfinity NegInfinity = NaN"
| "js_add NegInfinity PosInfinity = NaN"
| "js_add PosInfinity _ = PosInfinity"
| "js_add _ PosInfinity = PosInfinity"
| "js_add NegInfinity _ = NegInfinity"
| "js_add _ NegInfinity = NegInfinity"
| "js_add (Finite a) (Finite b) = round_double (a + b)"

fun js_neg :: "js_number \<Rightarrow> js_number" where
  "js_neg NaN = NaN"
| "js_neg PosInfinity = NegInfinity"
| "js_neg NegInfinity = PosInfinity"
| "js_neg (Finite a) = Finite (- a)"

text \<open>The operator \<open>-\<close>: IEEE subtraction is addition of the negated operand.\<close>

definition js_sub :: "js_number \<Rightarrow> js_number \<Rightarrow> js_number" where
  "js_sub a b = js_add a (js_neg b)"

text \<open>The comparisons \<open><=\<close> and \<open><\<close>: false as soon as an operand is \<open>NaN\<close>.\<close>

fun js_le :: "js_number \<Rightarrow> js_number \<Rightarrow> bool" where
  "js_le NaN _ = False"
| "js_le _ NaN = False"
| "js_le NegInfinity _ = True"
| "js_le _ PosInfinity = True"
| "js_le PosInfinity _ = False"
| "js_le _ NegInfinity = False"
| "js_le (Finite a) (Finite b) = (a \<le> b)"

fun js_lt :: "js_number \<Rightarrow> js_number \<Rightarrow> bool" where
  "js_lt NaN _ = False"
| "js_lt _ NaN = False"
| "js_lt PosInfinity _ = False"
| "js_lt _ NegInfinity = False"
| "js_lt NegInfinity _ = True"
| "js_lt _ PosInfinity = True"
| "js_lt (Finite a) (Finite b) = (a < b)"

text \<open>Strict equality \<open>===\<close> of two numbers: \<open>NaN\<close> equals nothing, itself included.\<close>

definition js_strict_eq :: "js_number \<Rightarrow> js_number \<Rightarrow> bool" where
  "js_strict_eq a b = (a \<noteq> NaN \<and> a = b)"

text \<open>Truthiness of a number, as in \<open>x || 0\<close>: \<open>NaN\<close> and zero are falsy.\<close>

definition js_truthy :: "js_number \<Rightarrow> bool" where
  "js_truthy a = (a \<noteq> NaN \<and> a \<noteq> Finite 0)"

text \<open>Whole numbers, and the size of a finite number, to say when a sum is exact.\<close>

fun is_whole :: "js_number \<Rightarrow> bool" where
  "is_whole (Finite q) = (q = of_int \<lfloor>q\<rfloor>)"
| "is_whole _ = False"

fun magnitude :: "js_number \<Rightarrow> rat" where
  "magnitude (Finite q) = \<bar>q\<bar>"
| "magnitude _ = 0"

fun rat_of :: "js_number \<Rightarrow> rat" where
  "rat_of (Finite q) = q"
| "rat_of _ = 0"


section \<open>The data of the dashboard\<close>

text \<open>
  The interfaces of the dashboard component. An object used as a dictionary (\<open>Summary\<close>,
  \<open>Budgets\<close>) is an association list in the order \<open>Object.values\<close> and
  \<open>Object.entries\<close> enumerate it.
\<close>

record transaction =
  ID :: js_number
  Date :: string
  Transaction_Name :: string
  Category :: string
  Amount :: "string + js_number"
  Account_Type :: string

record category_summary =
  spent :: js_number
  budget :: js_number
  remaining :: js_number
  percentage_used :: js_number
  transactions_count :: js_number
  over_budget :: bool

type_synonym Budgets = "(string \<times> js_number) list"

type_synonym Summary = "(string \<times> category_summary) list"

record totals =
  totalSpent :: js_number
  totalBudget :: js_number
  remaining :: js_number

text \<open>
  The state cells of \<open>BudgetTracker\<close> (the \<open>useState\<close> calls). From here on
  \<open>remaining\<close> is the field of the totals object, \<open>category_summary.remaining\<close> the one
  of a category.
\<close>

record store =
  currentMonth :: string
  summary :: Summary
  transactions :: "transaction list"
  budgets :: Budgets
  availableMonths :: "string list"
  loading :: bool
  activeTab :: string
  editingBudgets :: bool
  tempBudgets :: Budgets
  editingTransaction :: "js_number option"
  totals :: totals


section \<open>Derived values\<close>

text \<open>\<open>calculateTotals\<close>: two reductions over \<open>Object.values(summaryData)\<close>, from \<open>0\<close>.\<close>

definition calculateTotals :: "Summary \<Rightarrow> store \<Rightarrow> store" where
  "calculateTotals summaryData st =
     (let totalSpent' = foldl (\<lambda>sum category. js_add sum (spent category)) (Finite 0)
                          (map snd summaryData);
          totalBudget' = foldl (\<lambda>sum category. js_add sum (budget category)) (Finite 0)
                           (map snd summaryData);
          remaining' = js_sub totalBudget' totalSpent'
      in st\<lparr>totals := \<lparr>totalSpent = totalSpent', totalBudget = totalBudget',
                        remaining = remaining'\<rparr>\<rparr>)"

definition getProgressColor :: "js_number \<Rightarrow> string" where
  "getProgressColor percentage =
     (if js_le percentage (Finite 70) then ''bg-green-500''
      else if js_le percentage (Finite 90) then ''bg-yellow-500''
      else ''bg-red-500'')"

text \<open>The two icons \<open>getStatusIcon\<close> can return, each with its class name.\<close>

datatype icon = AlertCircle string | CheckCircle string

definition getStatusIcon :: "category_summary \<Rightarrow> icon" where
  "getStatusIcon data =
     (if over_budget data then AlertCircle ''w-5 h-5 text-red-500''
      else CheckCircle ''w-5 h-5 text-green-500'')"

text \<open>
  The order of the three colours the claims speak of: green (on track) below yellow
  (approaching) below red (at or over the limit).
\<close>

definition severity :: "string \<Rightarrow> nat" where
  "severity colour =
     (if colour = ''bg-green-500'' then 0 else if colour = ''bg-yellow-500'' then 1 else 2)"

text \<open>A summary whose amounts are whole numbers small enough for every sum to be exact.\<close>

definition exact_column :: "js_number list \<Rightarrow> bool" where
  "exact_column xs = (list_all is_whole xs \<and> sum_list (map magnitude xs) \<le> 2 ^ 53)"

definition exact_summary :: "Summary \<Rightarrow> bool" where
  "exact_summary sd =
     (exact_column (map (spent \<circ> snd) sd) \<and> exact_column (map (budget \<circ> snd) sd))"


section \<open>Requests and their outcomes\<close>

text \<open>
  A request ends in one of four ways, and the first three all reach the \<open>catch\<close> block of
  the function that awaits it: \<open>fetch\<close> rejects, the response is not \<open>ok\<close> (the function
  throws), \<open>response.json()\<close> rejects, or the body parses. The functions are given first
  on a parsed body of the shape the state cell expects, where the effects and the later
  handlers can be followed; what they store of a body of any shape is given in the section
  on bodies of any shape. The body of a mutation is its \<open>success\<close> field, read for
  truthiness.
\<close>

datatype failure = NetworkFailure | HttpStatus nat | MalformedBody

datatype 'a response = Failed failure | Json 'a

text \<open>
  An \<open>async\<close> function runs up to its first \<open>await\<close> when it is called and the rest when
  the request settles. What is in flight in between is the rest of the function with the
  variables of the render that created it: its arguments, and the \<open>currentMonth\<close> and
  \<open>tempBudgets\<close> it closes over.
\<close>

datatype pending =
    FetchSummary string
  | FetchTransactions string
  | FetchBudgets
  | FetchAvailableMonths string
  | UpdateTransactionCategory js_number string string
  | SaveBudgets Budgets string

datatype effect = Started pending | Alert string | ConsoleError string

type_synonym handler = "store \<Rightarrow> store \<times> effect list"

definition seq :: "handler \<Rightarrow> handler \<Rightarrow> handler" where
  "seq f g st = (let (s1, e1) = f st; (s2, e2) = g s1 in (s2, e1 @ e2))"


section \<open>The fetch functions\<close>

definition fetchSummary :: "string \<Rightarrow> handler" where
  "fetchSummary month st = (st\<lparr>loading := True\<rparr>, [Started (FetchSummary month)])"

text \<open>
  \<open>setSummary\<close> with what follows it: the effect on \<open>[summary]\<close> runs \<open>calculateTotals\<close>
  after every call, since a parsed body is a new object.
\<close>

definition setSummary :: "Summary \<Rightarrow> store \<Rightarrow> store" where
  "setSummary data st = calculateTotals data (st\<lparr>summary := data\<rparr>)"

definition fetchSummary_resume :: "string \<Rightarrow> Summary response \<Rightarrow> handler" where
  "fetchSummary_resume month r st =
     (case r of
        Json data \<Rightarrow> ((setSummary data st)\<lparr>loading := False\<rparr>, [])
      | Failed f \<Rightarrow> (st\<lparr>loading := False\<rparr>, [ConsoleError ''Error fetching summary:'']))"

definition fetchTransactions :: "string \<Rightarrow> handler" where
  "fetchTransactions month st = (st, [Started (FetchTransactions month)])"

definition fetchTransactions_resume :: "string \<Rightarrow> transaction list response \<Rightarrow> handler" where
  "fetchTransactions_resume month r st =
     (case r of
        Json data \<Rightarrow> (st\<lparr>transactions := data\<rparr>, [])
      | Failed f \<Rightarrow> (st, [ConsoleError ''Error fetching transactions:'']))"

definition fetchBudgets :: handler where
  "fetchBudgets st = (st, [Started FetchBudgets])"

definition fetchBudgets_resume :: "Budgets response \<Rightarrow> handler" where
  "fetchBudgets_resume r st =
     (case r of
        Json data \<Rightarrow> (st\<lparr>budgets := data, tempBudgets := data\<rparr>, [])
      | Failed f \<Rightarrow> (st, [ConsoleError ''Error fetching budgets:'']))"

definition fetchAvailableMonths :: handler where
  "fetchAvailableMonths st = (st, [Started (FetchAvailableMonths (currentMonth st))])"

text \<open>The effect on \<open>[currentMonth]\<close>: the four fetches, for the month of the new render.\<close>

definition month_effect :: handler where
  "month_effect st =
     seq (fetchSummary (currentMonth st))
       (seq (fetchTransactions (currentMonth st))
         (seq fetchBudgets fetchAvailableMonths)) st"

text \<open>\<open>setCurrentMonth\<close> with what follows it: the effect runs when the value changes.\<close>

definition setCurrentMonth :: "string \<Rightarrow> handler" where
  "setCurrentMonth month st =
     (if month \<noteq> currentMonth st then month_effect (st\<lparr>currentMonth := month\<rparr>)
      else (st\<lparr>currentMonth := month\<rparr>, []))"

text \<open>
  The rest of \<open>fetchAvailableMonths\<close>; \<open>closureMonth\<close> is the \<open>currentMonth\<close> of the render
  that called it.
\<close>

definition fetchAvailableMonths_resume :: "string \<Rightarrow> string list response \<Rightarrow> handler" where
  "fetchAvailableMonths_resume closureMonth r st =
     (case r of
        Json data \<Rightarrow>
          (if closureMonth = '''' \<and> 0 < length data
           then setCurrentMonth (data ! 0) (st\<lparr>availableMonths := data\<rparr>)
           else (st\<lparr>availableMonths := data\<rparr>, []))
      | Failed f \<Rightarrow> (st, [ConsoleError ''Error fetching months:'']))"


section \<open>The two mutations\<close>

definition updateTransactionCategory :: "js_number \<Rightarrow> string \<Rightarrow> handler" where
  "updateTransactionCategory transactionId newCategory st =
     (st, [Started (UpdateTransactionCategory transactionId newCategory (currentMonth st))])"

definition updateTransactionCategory_resume ::
    "js_number \<Rightarrow> string \<Rightarrow> string \<Rightarrow> bool response \<Rightarrow> handler" where
  "updateTransactionCategory_resume transactionId newCategory closureMonth r st =
     (case r of
        Json success \<Rightarrow>
          (if success
           then fetchSummary closureMonth
                  (st\<lparr>transactions :=
                        map (\<lambda>t. if js_strict_eq (ID t) transactionId
                                 then t\<lparr>Category := newCategory\<rparr> else t)
                          (transactions st),
                      editingTransaction := None\<rparr>)
           else (st, []))
      | Failed f \<Rightarrow>
          (st, [ConsoleError ''Error updating category:'',
                Alert ''Failed to update category. Please try again.'']))"

definition saveBudgets :: handler where
  "saveBudgets st = (st, [Started (SaveBudgets (tempBudgets st) (currentMonth st))])"

definition saveBudgets_resume :: "Budgets \<Rightarrow> string \<Rightarrow> bool response \<Rightarrow> handler" where
  "saveBudgets_resume closureTempBudgets closureMonth r st =
     (case r of
        Json success \<Rightarrow>
          (if success
           then seq (fetchSummary closureMonth)
                  (\<lambda>s. (s, [Alert ''Budgets updated successfully'']))
                  (st\<lparr>budgets := closureTempBudgets, editingBudgets := False\<rparr>)
           else (st, []))
      | Failed f \<Rightarrow>
          (st, [ConsoleError ''Error saving budgets:'',
                Alert ''Failed to update budgets. Please try again.'']))"


section \<open>The handlers of the budget and transaction tabs\<close>

text \<open>
  The inline \<open>onClick\<close> and \<open>onChange\<close> handlers, named after what they do.
  \<open>changeBudget\<close> receives what \<open>parseFloat\<close> returned.
\<close>

definition beginBudgetEdit :: handler where
  "beginBudgetEdit st = (st\<lparr>editingBudgets := True\<rparr>, [])"

definition cancelBudgetEdit :: handler where
  "cancelBudgetEdit st = (st\<lparr>tempBudgets := budgets st, editingBudgets := False\<rparr>, [])"

definition changeBudget :: "string \<Rightarrow> js_number \<Rightarrow> handler" where
  "changeBudget category parsed st =
     (let v = (if js_truthy parsed then parsed else Finite 0)
      in (st\<lparr>tempBudgets := AList.update category v (tempBudgets st)\<rparr>, []))"

definition setEditingTransaction :: "js_number option \<Rightarrow> handler" where
  "setEditingTransaction v st = (st\<lparr>editingTransaction := v\<rparr>, [])"


section \<open>The component as a transition system\<close>

text \<open>
  The component with its requests in flight. An event is a user action or the settling of
  one request in flight, in any order the network chooses. The upload handler, the tab
  switch and the chart series are left out: no property below depends on them.
\<close>

record app =
  state :: store
  inflight :: "pending list"
  notices :: "effect list"

fun requests_of :: "effect list \<Rightarrow> pending list" where
  "requests_of [] = []"
| "requests_of (Started p # es) = p # requests_of es"
| "requests_of (e # es) = requests_of es"

fun notices_of :: "effect list \<Rightarrow> effect list" where
  "notices_of [] = []"
| "notices_of (Started p # es) = notices_of es"
| "notices_of (e # es) = e # notices_of es"

definition absorb :: "app \<Rightarrow> store \<times> effect list \<Rightarrow> app" where
  "absorb a res =
     \<lparr>state = fst res, inflight = inflight a @ requests_of (snd res),
      notices = notices a @ notices_of (snd res)\<rparr>"

datatype reply =
    SummaryReply "Summary response"
  | TransactionsReply "transaction list response"
  | BudgetsReply "Budgets response"
  | MonthsReply "string list response"
  | MutationReply "bool response"

fun resume :: "pending \<Rightarrow> reply \<Rightarrow> store \<Rightarrow> (store \<times> effect list) option" where
  "resume (FetchSummary m) (SummaryReply r) st = Some (fetchSummary_resume m r st)"
| "resume (FetchTransactions m) (TransactionsReply r) st =
     Some (fetchTransactions_resume m r st)"
| "resume FetchBudgets (BudgetsReply r) st = Some (fetchBudgets_resume r st)"
| "resume (FetchAvailableMonths m) (MonthsReply r) st =
     Some (fetchAvailableMonths_resume m r st)"
| "resume (UpdateTransactionCategory i c m) (MutationReply r) st =
     Some (updateTransactionCategory_resume i c m r st)"
| "resume (SaveBudgets b m) (MutationReply r) st = Some (saveBudgets_resume b m r st)"
| "resume _ _ _ = None"

datatype event =
    SelectMonth string
  | EditCategory js_number string
  | ClickEditTransaction js_number
  | CancelEditTransaction
  | ClickEditBudgets
  | CancelEditBudgets
  | TypeBudget string js_number
  | ClickSaveBudgets
  | Settle nat reply

fun step :: "event \<Rightarrow> app \<Rightarrow> app" where
  "step (SelectMonth m) a = absorb a (setCurrentMonth m (state a))"
| "step (EditCategory i c) a = absorb a (updateTransactionCategory i c (state a))"
| "step (ClickEditTransaction i) a = absorb a (setEditingTransaction (Some i) (state a))"
| "step CancelEditTransaction a = absorb a (setEditingTransaction None (state a))"
| "step ClickEditBudgets a = absorb a (beginBudgetEdit (state a))"
| "step CancelEditBudgets a = absorb a (cancelBudgetEdit (state a))"
| "step (TypeBudget c v) a = absorb a (changeBudget c v (state a))"
| "step ClickSaveBudgets a = absorb a (saveBudgets (state a))"
| "step (Settle i r) a =
     (if i < length (inflight a)
      then (case resume (inflight a ! i) r (state a) of
              None \<Rightarrow> a
            | Some res \<Rightarrow>
                absorb (a\<lparr>inflight := take i (inflight a) @ drop (Suc i) (inflight a)\<rparr>) res)
      else a)"

fun run :: "event list \<Rightarrow> app \<Rightarrow> app" where
  "run [] a = a"
| "run (e # es) a = run es (step e a)"

text \<open>
  The first render and its effects. \<open>nowISO\<close> is \<open>new Date().toISOString()\<close>, of which
  the first seven characters are the month.
\<close>

definition initial_store :: "string \<Rightarrow> store" where
  "initial_store nowISO =
     \<lparr>currentMonth = take 7 nowISO, summary = [], transactions = [], budgets = [],
      availableMonths = [], loading = False, activeTab = ''dashboard'',
      editingBudgets = False, tempBudgets = [], editingTransaction = None,
      totals = \<lparr>totalSpent = Finite 0, totalBudget = Finite 0, remaining = Finite 0\<rparr>\<rparr>"

definition mount :: "string \<Rightarrow> app" where
  "mount nowISO =
     absorb \<lparr>state = initial_store nowISO, inflight = [], notices = []\<rparr>
       (seq month_effect (\<lambda>s. (calculateTotals (summary s) s, [])) (initial_store nowISO))"


text \<open>What the user sees of the loaded data: every cell but the spinner and the tab.\<close>

definition loaded :: "store \<Rightarrow>
    Summary \<times> transaction list \<times> Budgets \<times> Budgets \<times> string list \<times> string \<times> totals" where
  "loaded st =
     (summary st, transactions st, budgets st, tempBudgets st, availableMonths st,
      currentMonth st, totals st)"


section \<open>The session\<close>

text \<open>
  The two state cells of \<open>AuthProvider\<close> and the browser's \<open>localStorage\<close>. A reload
  starts the cells afresh and keeps the storage.
\<close>

record session =
  isAuthenticated :: bool
  token :: "string option"
  localStorage :: "string \<rightharpoonup> string"

text \<open>Truthiness of a \<open>string | null\<close>: \<open>null\<close> and the empty string are falsy.\<close>

fun truthy :: "string option \<Rightarrow> bool" where
  "truthy None = False"
| "truthy (Some t) = (t \<noteq> '''')"

definition initial_session :: "(string \<rightharpoonup> string) \<Rightarrow> session" where
  "initial_session storage = \<lparr>isAuthenticated = False, token = None, localStorage = storage\<rparr>"

definition reload :: "session \<Rightarrow> session" where
  "reload s = initial_session (localStorage s)"

text \<open>The effect \<open>AuthProvider\<close> runs once when it mounts.\<close>

definition restoreSession :: "session \<Rightarrow> session \<times> effect list" where
  "restoreSession s =
     (let savedToken = localStorage s ''access_token''
      in if truthy savedToken then (s\<lparr>token := savedToken, isAuthenticated := True\<rparr>, [])
         else (s, []))"

definition login :: "string \<Rightarrow> session \<Rightarrow> session \<times> effect list" where
  "login newToken s =
     (s\<lparr>localStorage := (localStorage s)(''access_token'' \<mapsto> newToken),
        token := Some newToken, isAuthenticated := True\<rparr>, [])"

definition logout :: "session \<Rightarrow> session \<times> effect list" where
  "logout s =
     (s\<lparr>localStorage := (localStorage s)(''access_token'' := None),
        token := None, isAuthenticated := False\<rparr>, [])"

definition getAuthHeaders :: "session \<Rightarrow> (string \<times> string) list" where
  "getAuthHeaders s =
     (let headers = [(''Content-Type'', ''application/json'')]
      in if truthy (token s)
         then AList.update ''Authorization'' (''Bearer '' @ the (token s)) headers
         else headers)"


text \<open>
  The provider as a transition system: what can happen to a session is a run of the
  mount effect, a \<open>login\<close>, a \<open>logout\<close> or a reload of the page, in any order.
\<close>

datatype session_event = Restore | Login string | Logout | Reload

fun session_step :: "session_event \<Rightarrow> session \<Rightarrow> session" where
  "session_step Restore s = fst (restoreSession s)"
| "session_step (Login t) s = fst (login t s)"
| "session_step Logout s = fst (logout s)"
| "session_step Reload s = reload s"

fun session_run :: "session_event list \<Rightarrow> session \<Rightarrow> session" where
  "session_run [] s = s"
| "session_run (e # es) s = session_run es (session_step e s)"


text \<open>A login that passes a token, that is, a string that is not empty.\<close>

fun passes_token :: "session_event \<Rightarrow> bool" where
  "passes_token (Login t) = (t \<noteq> '''')"
| "passes_token _ = True"


section \<open>Bodies of any shape\<close>

text \<open>
  \<open>response.json()\<close> resolves to whatever JSON value the body holds, and the fetch
  functions hand it to the setter of the cell unchecked. A JSON value:
\<close>

datatype json =
    JNull
  | JBool bool
  | JNumber js_number
  | JString string
  | JArray "json list"
  | JObject "(string \<times> json) list"

text \<open>The JSON value of a body of the expected shape, cell by cell.\<close>

definition category_summary_json :: "category_summary \<Rightarrow> json" where
  "category_summary_json c =
     JObject [(''spent'', JNumber (spent c)), (''budget'', JNumber (budget c)),
              (''remaining'', JNumber (category_summary.remaining c)),
              (''percentage_used'', JNumber (percentage_used c)),
              (''transactions_count'', JNumber (transactions_count c)),
              (''over_budget'', JBool (over_budget c))]"

definition summary_json :: "Summary \<Rightarrow> json" where
  "summary_json sd = JObject (map (\<lambda>(k, c). (k, category_summary_json c)) sd)"

definition transaction_json :: "transaction \<Rightarrow> json" where
  "transaction_json t =
     JObject [(''ID'', JNumber (ID t)), (''Date'', JString (Date t)),
              (''Transaction Name'', JString (Transaction_Name t)),
              (''Category'', JString (Category t)),
              (''Amount'', (case Amount t of Inl s \<Rightarrow> JString s | Inr n \<Rightarrow> JNumber n)),
              (''Account Type'', JString (Account_Type t))]"

definition transactions_json :: "transaction list \<Rightarrow> json" where
  "transactions_json ts = JArray (map transaction_json ts)"

definition budgets_json :: "Budgets \<Rightarrow> json" where
  "budgets_json b = JObject (map (\<lambda>(k, v). (k, JNumber v)) b)"

definition months_json :: "string list \<Rightarrow> json" where
  "months_json ms = JArray (map JString ms)"

text \<open>
  The five cells that hold fetched data, each with the JSON value in it, and the cells of
  a store whose data has the expected shape.
\<close>

record cells =
  summary_cell :: json
  transactions_cell :: json
  budgets_cell :: json
  tempBudgets_cell :: json
  availableMonths_cell :: json

definition cells_of :: "store \<Rightarrow> cells" where
  "cells_of st =
     \<lparr>summary_cell = summary_json (summary st),
      transactions_cell = transactions_json (transactions st),
      budgets_cell = budgets_json (budgets st),
      tempBudgets_cell = budgets_json (tempBudgets st),
      availableMonths_cell = months_json (availableMonths st)\<rparr>"

text \<open>
  What each fetch function leaves in these cells when its request settles: the calls
  \<open>setSummary(data)\<close>, \<open>setTransactions(data)\<close>, \<open>setBudgets(data)\<close> with
  \<open>setTempBudgets(data)\<close>, and \<open>setAvailableMonths(data)\<close>, each made with the parsed
  body as it is, and none of them made when the request fails before. The cells are
  followed as far as these calls write them.
\<close>

definition fetchSummary_stores :: "json response \<Rightarrow> cells \<Rightarrow> cells" where
  "fetchSummary_stores r cs =
     (case r of Json data \<Rightarrow> cs\<lparr>summary_cell := data\<rparr> | Failed f \<Rightarrow> cs)"

definition fetchTransactions_stores :: "json response \<Rightarrow> cells \<Rightarrow> cells" where
  "fetchTransactions_stores r cs =
     (case r of Json data \<Rightarrow> cs\<lparr>transactions_cell := data\<rparr> | Failed f \<Rightarrow> cs)"

definition fetchBudgets_stores :: "json response \<Rightarrow> cells \<Rightarrow> cells" where
  "fetchBudgets_stores r cs =
     (case r of
        Json data \<Rightarrow> cs\<lparr>budgets_cell := data, tempBudgets_cell := data\<rparr>
      | Failed f \<Rightarrow> cs)"

definition fetchAvailableMonths_stores :: "json response \<Rightarrow> cells \<Rightarrow> cells" where
  "fetchAvailableMonths_stores r cs =
     (case r of Json data \<Rightarrow> cs\<lparr>availableMonths_cell := data\<rparr> | Failed f \<Rightarrow> cs)"


section \<open>Concrete data for the worked examples\<close>

text \<open>The number a decimal literal of a response body denotes: the nearest double.\<close>

definition js_literal :: "rat \<Rightarrow> js_number" where
  "js_literal q = round_double q"

definition category_of :: "js_number \<Rightarrow> js_number \<Rightarrow> category_summary" where
  "category_of s b =
     \<lparr>spent = s, budget = b, remaining = js_sub b s, percentage_used = Finite 0,
      transactions_count = Finite 1, over_budget = js_lt b s\<rparr>"

text \<open>Three categories with 0.1, 0.2 and 0.3 spent, and the same three in reverse order.\<close>

definition tenths :: Summary where
  "tenths =
     [(''Groceries'', category_of (js_literal (1 / 10)) (Finite 0)),
      (''Utilities'', category_of (js_literal (2 / 10)) (Finite 0)),
      (''Travel'', category_of (js_literal (3 / 10)) (Finite 0))]"

definition tenths_reversed :: Summary where
  "tenths_reversed =
     [(''Travel'', category_of (js_literal (3 / 10)) (Finite 0)),
      (''Utilities'', category_of (js_literal (2 / 10)) (Finite 0)),
      (''Groceries'', category_of (js_literal (1 / 10)) (Finite 0))]"

text \<open>Two categories with whole amounts, and the same two in the other order.\<close>

definition whole_amounts :: Summary where
  "whole_amounts =
     [(''Groceries'', category_of (Finite 120) (Finite 300)),
      (''Travel'', category_of (Finite 45) (Finite 100))]"

definition whole_amounts_swapped :: Summary where
  "whole_amounts_swapped =
     [(''Travel'', category_of (Finite 45) (Finite 100)),
      (''Groceries'', category_of (Finite 120) (Finite 300))]"

text \<open>
  A category with spending and no budget, as the service reports it: nothing used in
  percent, and over budget.
\<close>

definition unbudgeted :: category_summary where
  "unbudgeted =
     \<lparr>spent = Finite 25, budget = Finite 0, remaining = Finite (- 25),
      percentage_used = Finite 0, transactions_count = Finite 1, over_budget = True\<rparr>"

definition february :: Summary where
  "february =
     [(''Groceries'',
       \<lparr>spent = Finite 120, budget = Finite 300, remaining = Finite 180,
        percentage_used = Finite 40, transactions_count = Finite 3, over_budget = False\<rparr>)]"

definition shoes :: transaction where
  "shoes =
     \<lparr>ID = Finite 7, Date = ''2024-03-02'', Transaction_Name = ''Shoes'',
      Category = ''Shopping'', Amount = Inr (Finite 59), Account_Type = ''credit''\<rparr>"

text \<open>The dashboard of March 2024 with one transaction loaded and nothing in flight.\<close>

definition march_app :: app where
  "march_app =
     \<lparr>state = (initial_store ''2024-03-15T10:00:00.000Z'')\<lparr>transactions := [shoes]\<rparr>,
      inflight = [], notices = []\<rparr>"

text \<open>
  The dashboard of February 2024 after its summary has loaded, and a body with status 200
  that holds an error object in place of a summary.
\<close>

definition february_store :: store where
  "february_store =
     fst (fetchSummary_resume ''2024-02'' (Json february)
            (initial_store ''2024-02-15T09:30:00.000Z''))"

definition error_body :: json where
  "error_body = JObject [(''error'', JString ''Database unavailable'')]"

text \<open>A browser whose storage holds nothing, before any login.\<close>

definition fresh_browser :: session where
  "fresh_browser = initial_session Map.empty"


section \<open>Sums of whole numbers are exact\<close>

lemma quotient_of_of_int: "quotient_of (of_int n) = (n, 1)"
  using quotient_of_int [of n] by (simp add: Rat.of_int_def)

lemma bitlen_one: "bitlen 1 = 1"
  by (simp add: bitlen_alt_def)

lemma floor_log2_of_int:
  assumes "0 < n"
  shows "floor_log2 (of_int n) = bitlen n - 1"
proof -
  have b: "2 ^ nat (bitlen n - 1) \<le> n" using bitlen_bounds [OF assms] by simp
  have "1 \<le> bitlen n" using assms by (simp add: bitlen_alt_def)
  then have "pow2 (bitlen n - 1) = of_int (2 ^ nat (bitlen n - 1))"
    by (simp add: pow2_def)
  also have "\<dots> \<le> of_int n" using b by (simp only: of_int_le_iff)
  finally show ?thesis
    by (simp add: floor_log2_def quotient_of_of_int bitlen_one Let_def)
qed

lemma round_half_even_of_int: "round_half_even (of_int z) = z"
  by (simp add: round_half_even_def Let_def)


lemma pow2_nonneg: "0 \<le> k \<Longrightarrow> pow2 k = 2 ^ nat k"
  by (simp add: pow2_def)

lemma pow2_neg: "k \<le> 0 \<Longrightarrow> pow2 k = 1 / 2 ^ nat (- k)"
  by (cases "k = 0") (simp_all add: pow2_def)

lemma bitlen_le_54:
  assumes "0 < n" "n \<le> 2 ^ 53"
  shows "bitlen n \<le> 54"
proof -
  have "n < 2 ^ 54" using assms by simp
  then show ?thesis using assms(1) by (simp add: bitlen_le_iff_power)
qed

lemma round_scaled_int:
  assumes "0 < m" "m \<le> 2 ^ 53" "\<bar>n\<bar> = m"
  shows "of_int (round_half_even (of_int n / pow2 (bitlen m - 53))) * pow2 (bitlen m - 53)
           = (of_int n :: rat)"
proof (cases "bitlen m \<le> 53")
  case True
  let ?k = "nat (53 - bitlen m)"
  have p: "pow2 (bitlen m - 53) = 1 / 2 ^ ?k"
    using True by (simp add: pow2_neg)
  have "(of_int n :: rat) / pow2 (bitlen m - 53) = of_int (n * 2 ^ ?k)"
    by (simp add: p)
  then have "round_half_even (of_int n / pow2 (bitlen m - 53)) = n * 2 ^ ?k"
    by (simp only: round_half_even_of_int)
  then show ?thesis by (simp add: p)
next
  case False
  then have b: "bitlen m = 54" using bitlen_le_54 [OF assms(1,2)] by simp
  have "2 ^ 53 \<le> m" using bitlen_bounds [OF assms(1)] b by simp
  then have m: "m = 2 ^ 53" using assms(2) by simp
  have p: "pow2 (bitlen m - 53) = 2" by (simp add: b pow2_def)
  have "n = 2 ^ 53 \<or> n = - (2 ^ 53)" using assms(3) m by (simp add: abs_if split: if_splits)
  then show ?thesis
  proof
    assume "n = 2 ^ 53"
    then have "(of_int n :: rat) / 2 = of_int (2 ^ 52)" by simp
    then have "round_half_even (of_int n / 2) = 2 ^ 52" by (simp only: round_half_even_of_int)
    then show ?thesis using \<open>n = 2 ^ 53\<close> by (simp add: p)
  next
    assume "n = - (2 ^ 53)"
    then have "(of_int n :: rat) / 2 = of_int (- (2 ^ 52))" by simp
    then have "round_half_even (of_int n / 2) = - (2 ^ 52)" by (simp only: round_half_even_of_int)
    then show ?thesis using \<open>n = - (2 ^ 53)\<close> by (simp add: p)
  qed
qed

lemma round_double_of_int:
  assumes "\<bar>n\<bar> \<le> 2 ^ 53"
  shows "round_double (of_int n) = Finite (of_int n)"
proof (cases "n = 0")
  case True
  then show ?thesis by (simp add: round_double_def)
next
  case False
  define m where "m = \<bar>n\<bar>"
  have m: "0 < m" "m \<le> 2 ^ 53" "\<bar>n\<bar> = m" using False assms by (simp_all add: m_def)
  have a: "\<bar>of_int n :: rat\<bar> = of_int m" by (simp add: m_def)
  have fl: "floor_log2 \<bar>of_int n\<bar> = bitlen m - 1"
    by (simp only: a floor_log2_of_int [OF m(1)])
  have "1 \<le> bitlen m" using m(1) by (simp add: bitlen_alt_def)
  then have e: "max (floor_log2 \<bar>of_int n\<bar> - 52) (- 1074) = bitlen m - 53"
    by (simp add: fl)
  have r: "of_int (round_half_even (of_int n / pow2 (bitlen m - 53))) * pow2 (bitlen m - 53)
           = (of_int n :: rat)"
    by (rule round_scaled_int [OF m])
  have "bitlen m - 1 < 1024" using bitlen_le_54 [OF m(1,2)] by simp
  then have "\<not> 1024 \<le> floor_log2 \<bar>of_int n\<bar>" by (simp add: fl)
  then show ?thesis using False
    by (simp add: round_double_def Let_def e r del: of_int_abs)
qed

lemma is_whole_cases:
  assumes "is_whole a"
  obtains x where "a = Finite (of_int x)"
  using assms by (cases a) auto

lemma js_add_whole:
  assumes "is_whole a" "is_whole b" "magnitude a + magnitude b \<le> 2 ^ 53"
  shows "js_add a b = Finite (rat_of a + rat_of b) \<and> is_whole (js_add a b)
         \<and> magnitude (js_add a b) \<le> magnitude a + magnitude b"
proof -
  obtain x where x: "a = Finite (of_int x)" using assms(1) by (rule is_whole_cases)
  obtain y where y: "b = Finite (of_int y)" using assms(2) by (rule is_whole_cases)
  have "(of_int (\<bar>x\<bar> + \<bar>y\<bar>) :: rat) \<le> of_int (2 ^ 53)"
    using assms(3) by (simp add: x y)
  then have "\<bar>x\<bar> + \<bar>y\<bar> \<le> 2 ^ 53" by (simp only: of_int_le_iff)
  then have b: "\<bar>x + y\<bar> \<le> 2 ^ 53" by linarith
  have "js_add a b = round_double (of_int (x + y))" by (simp add: x y)
  also have "\<dots> = Finite (of_int (x + y))" by (rule round_double_of_int [OF b])
  finally have e: "js_add a b = Finite (of_int (x + y))" .
  have "\<bar>(of_int (x + y)) :: rat\<bar> \<le> \<bar>of_int x\<bar> + \<bar>of_int y\<bar>"
    by (simp only: of_int_add abs_triangle_ineq)
  then show ?thesis by (simp add: e) (simp add: x y)
qed

lemma magnitude_nonneg: "0 \<le> magnitude a"
  by (cases a) auto

lemma sum_magnitude_nonneg: "0 \<le> sum_list (map magnitude xs)"
  by (induction xs) (auto simp: magnitude_nonneg)

lemma foldl_js_add_exact:
  assumes "list_all is_whole xs" "is_whole acc"
    "magnitude acc + sum_list (map magnitude xs) \<le> 2 ^ 53"
  shows "foldl js_add acc xs = Finite (rat_of acc + sum_list (map rat_of xs))"
  using assms
proof (induction xs arbitrary: acc)
  case Nil
  then show ?case by (cases acc) auto
next
  case (Cons x xs)
  have w: "is_whole x" "list_all is_whole xs" using Cons.prems(1) by simp_all
  have "magnitude acc + magnitude x \<le> magnitude acc + magnitude x + sum_list (map magnitude xs)"
    using sum_magnitude_nonneg [of xs] by simp
  then have s: "magnitude acc + magnitude x \<le> 2 ^ 53" using Cons.prems(3) by simp
  note step = js_add_whole [OF Cons.prems(2) w(1) s]
  have p: "magnitude acc + (magnitude x + sum_list (map magnitude xs)) \<le> 2 ^ 53"
    using Cons.prems(3) by simp
  have "magnitude (js_add acc x) \<le> magnitude acc + magnitude x" using step by blast
  then have "magnitude (js_add acc x) + sum_list (map magnitude xs) \<le> 2 ^ 53"
    using p by linarith
  then have "foldl js_add (js_add acc x) xs
             = Finite (rat_of (js_add acc x) + sum_list (map rat_of xs))"
    using Cons.IH [OF w(2)] step by blast
  then show ?case using step by (simp add: add.assoc)
qed

lemma exact_column_sum:
  assumes "exact_column xs"
  shows "foldl js_add (Finite 0) xs = Finite (sum_list (map rat_of xs))"
  using assms foldl_js_add_exact [of xs "Finite 0"] by (simp add: exact_column_def)

lemma exact_column_mset:
  assumes "mset ys = mset xs" "exact_column xs"
  shows "exact_column ys \<and> sum_list (map rat_of ys) = sum_list (map rat_of xs)"
proof -
  have s: "set ys = set xs" using assms(1) by (rule mset_eq_setD)
  have "sum_list (map magnitude ys) = sum_mset (image_mset magnitude (mset ys))"
    by (simp add: sum_mset_sum_list [symmetric])
  also have "\<dots> = sum_list (map magnitude xs)"
    by (simp add: assms(1) sum_mset_sum_list [symmetric])
  finally have m: "sum_list (map magnitude ys) = sum_list (map magnitude xs)" .
  have "sum_list (map rat_of ys) = sum_mset (image_mset rat_of (mset ys))"
    by (simp add: sum_mset_sum_list [symmetric])
  also have "\<dots> = sum_list (map rat_of xs)"
    by (simp add: assms(1) sum_mset_sum_list [symmetric])
  finally have r: "sum_list (map rat_of ys) = sum_list (map rat_of xs)" .
  show ?thesis using assms(2) by (simp add: exact_column_def list_all_iff s m r)
qed

section \<open>Totals\<close>

lemma foldl_column: "foldl (\<lambda>sum category. js_add sum (f category)) z (map snd sd)
                     = foldl js_add z (map (f \<circ> snd) sd)"
  by (induction sd arbitrary: z) auto

lemma totals_calculateTotals:
  "totals (calculateTotals sd st) =
     \<lparr>totalSpent = foldl js_add (Finite 0) (map (spent \<circ> snd) sd),
      totalBudget = foldl js_add (Finite 0) (map (budget \<circ> snd) sd),
      remaining = js_sub (foldl js_add (Finite 0) (map (budget \<circ> snd) sd))
                    (foldl js_add (Finite 0) (map (spent \<circ> snd) sd))\<rparr>"
  by (simp add: calculateTotals_def Let_def foldl_column)

lemma exact_summary_mset:
  assumes "mset sd' = mset sd" "exact_summary sd"
  shows "totals (calculateTotals sd' st) = totals (calculateTotals sd st)"
proof -
  have a: "mset (map (spent \<circ> snd) sd') = mset (map (spent \<circ> snd) sd)"
    using assms(1) by (metis mset_map)
  have b: "mset (map (budget \<circ> snd) sd') = mset (map (budget \<circ> snd) sd)"
    using assms(1) by (metis mset_map)
  have es: "exact_column (map (spent \<circ> snd) sd)" and eb: "exact_column (map (budget \<circ> snd) sd)"
    using assms(2) by (simp_all add: exact_summary_def)
  note s = exact_column_mset [OF a es] and t = exact_column_mset [OF b eb]
  have "foldl js_add (Finite 0) (map (spent \<circ> snd) sd') = foldl js_add (Finite 0) (map (spent \<circ> snd) sd)"
    using s es by (simp add: exact_column_sum)
  moreover have "foldl js_add (Finite 0) (map (budget \<circ> snd) sd') = foldl js_add (Finite 0) (map (budget \<circ> snd) sd)"
    using t eb by (simp add: exact_column_sum)
  ultimately show ?thesis by (simp only: totals_calculateTotals)
qed

text \<open>
  Claim C3, as amended. For every summary, \<open>totalSpent\<close> is the sum of \<open>spent\<close> and
  \<open>totalBudget\<close> the sum of \<open>budget\<close> over the categories, added from \<open>0\<close> in
  the order \<open>Object.values\<close> lists them, and \<open>remaining\<close> is
  \<open>totalBudget - totalSpent\<close>. When every amount is a whole number and the absolute
  values of each column add up to at most \<open>2^53\<close>, no addition rounds: the two sums
  are the exact sums, and the totals are the same for every order of the entries.
\<close>

theorem calculateTotals_sums:
  "totalSpent (totals (calculateTotals sd st)) = foldl js_add (Finite 0) (map (spent \<circ> snd) sd)
   \<and> totalBudget (totals (calculateTotals sd st))
        = foldl js_add (Finite 0) (map (budget \<circ> snd) sd)
   \<and> remaining (totals (calculateTotals sd st))
        = js_sub (totalBudget (totals (calculateTotals sd st)))
            (totalSpent (totals (calculateTotals sd st)))
   \<and> (exact_summary sd \<longrightarrow>
        totalSpent (totals (calculateTotals sd st))
          = Finite (sum_list (map (rat_of \<circ> spent \<circ> snd) sd))
        \<and> totalBudget (totals (calculateTotals sd st))
          = Finite (sum_list (map (rat_of \<circ> budget \<circ> snd) sd)))
   \<and> (exact_summary sd \<and> mset sd' = mset sd \<longrightarrow>
        totals (calculateTotals sd' st) = totals (calculateTotals sd st))"
proof -
  have "exact_summary sd \<Longrightarrow> foldl js_add (Finite 0) (map (spent \<circ> snd) sd)
          = Finite (sum_list (map (rat_of \<circ> spent \<circ> snd) sd))"
    using exact_column_sum [of "map (spent \<circ> snd) sd"] by (simp add: exact_summary_def comp_def)
  moreover have "exact_summary sd \<Longrightarrow> foldl js_add (Finite 0) (map (budget \<circ> snd) sd)
          = Finite (sum_list (map (rat_of \<circ> budget \<circ> snd) sd))"
    using exact_column_sum [of "map (budget \<circ> snd) sd"] by (simp add: exact_summary_def comp_def)
  ultimately show ?thesis
    using exact_summary_mset [of sd' sd st] by (simp add: totals_calculateTotals)
qed

text \<open>
  The theorem at two categories with 120 of 300 and 45 of 100 spent, in both orders.
\<close>

lemma exact_whole_amounts: "exact_summary whole_amounts"
  by (simp add: exact_summary_def exact_column_def whole_amounts_def category_of_def)

theorem calculateTotals_sums_witness:
  "exact_summary whole_amounts \<and> mset whole_amounts_swapped = mset whole_amounts
   \<and> totalSpent (totals (calculateTotals whole_amounts (state march_app))) = Finite 165
   \<and> totalBudget (totals (calculateTotals whole_amounts (state march_app))) = Finite 400
   \<and> totals (calculateTotals whole_amounts_swapped (state march_app))
       = totals (calculateTotals whole_amounts (state march_app))"
proof -
  have p: "mset whole_amounts_swapped = mset whole_amounts"
    by (simp add: whole_amounts_def whole_amounts_swapped_def)
  have s: "sum_list (map (rat_of \<circ> spent \<circ> snd) whole_amounts) = 165"
    "sum_list (map (rat_of \<circ> budget \<circ> snd) whole_amounts) = 400"
    by (simp_all add: whole_amounts_def category_of_def)
  have "totalSpent (totals (calculateTotals whole_amounts (state march_app)))
          = Finite (sum_list (map (rat_of \<circ> spent \<circ> snd) whole_amounts))
        \<and> totalBudget (totals (calculateTotals whole_amounts (state march_app)))
          = Finite (sum_list (map (rat_of \<circ> budget \<circ> snd) whole_amounts))
        \<and> totals (calculateTotals whole_amounts_swapped (state march_app))
          = totals (calculateTotals whole_amounts (state march_app))"
    using calculateTotals_sums [of whole_amounts "state march_app" whole_amounts_swapped]
      exact_whole_amounts p by blast
  then show ?thesis using exact_whole_amounts p by (simp only: s)
qed

text \<open>
  Claim C3 as stated fails: in general the totals depend on the order of the entries,
  because the addition of doubles rounds. With 0.1, 0.2 and 0.3 spent, adding in this
  order gives 0.6000000000000001 and adding in the reverse order gives 0.6.
\<close>

lemma tenths_forward:
  "js_add (js_add (js_add (Finite 0) (round_double (1 / 10))) (round_double (2 / 10)))
     (round_double (3 / 10)) = Finite (5404319552844596 / 9007199254740992)"
  by code_simp

lemma tenths_backward:
  "js_add (js_add (js_add (Finite 0) (round_double (3 / 10))) (round_double (2 / 10)))
     (round_double (1 / 10)) = Finite (5404319552844595 / 9007199254740992)"
  by code_simp

theorem totals_depend_on_order:
  "totalSpent (totals (calculateTotals tenths (state march_app)))
     = Finite (5404319552844596 / 9007199254740992)
   \<and> totalSpent (totals (calculateTotals tenths_reversed (state march_app)))
     = Finite (5404319552844595 / 9007199254740992)
   \<and> mset tenths_reversed = mset tenths"
proof -
  have a: "totalSpent (totals (calculateTotals tenths (state march_app)))
           = js_add (js_add (js_add (Finite 0) (round_double (1 / 10))) (round_double (2 / 10)))
               (round_double (3 / 10))"
    by (simp only: totals_calculateTotals totals.simps tenths_def list.map comp_def snd_conv
          category_of_def js_literal_def category_summary.simps foldl.simps)
  have b: "totalSpent (totals (calculateTotals tenths_reversed (state march_app)))
           = js_add (js_add (js_add (Finite 0) (round_double (3 / 10))) (round_double (2 / 10)))
               (round_double (1 / 10))"
    by (simp only: totals_calculateTotals totals.simps tenths_reversed_def list.map comp_def
          snd_conv category_of_def js_literal_def category_summary.simps foldl.simps)
  have c: "mset tenths_reversed = mset tenths"
    by (simp add: tenths_def tenths_reversed_def)
  show ?thesis by (simp only: a b c tenths_forward tenths_backward)
qed


section \<open>Progress colours and status icons\<close>

text \<open>
  Claim C4, as amended. \<open>getProgressColor\<close> classifies by \<open>percentage_used\<close> alone: green
  (on track) when it is at most 70, yellow (approaching) when it is above 70 and at most
  90, red (at or over the limit) when it is above 90. So for \<open>lo < hi\<close> the colour at
  \<open>lo\<close> is never more severe than the colour at \<open>hi\<close>, and 70 and 90 fall in the lower
  band. The flag \<open>over_budget\<close> plays no part in the colour; it selects the icon of
  \<open>getStatusIcon\<close>, the alert when it is set and the check mark otherwise.
\<close>

theorem getProgressColor_bands:
  "(js_le p (Finite 70) \<longrightarrow> getProgressColor p = ''bg-green-500'')
   \<and> (js_lt (Finite 70) p \<and> js_le p (Finite 90) \<longrightarrow> getProgressColor p = ''bg-yellow-500'')
   \<and> (js_lt (Finite 90) p \<longrightarrow> getProgressColor p = ''bg-red-500'')
   \<and> (js_lt lo hi \<longrightarrow> severity (getProgressColor lo) \<le> severity (getProgressColor hi))
   \<and> getProgressColor (Finite 70) = ''bg-green-500''
   \<and> getProgressColor (Finite 90) = ''bg-yellow-500''
   \<and> getProgressColor (percentage_used (d\<lparr>over_budget := b\<rparr>))
       = getProgressColor (percentage_used d)
   \<and> getStatusIcon d = (if over_budget d then AlertCircle ''w-5 h-5 text-red-500''
                         else CheckCircle ''w-5 h-5 text-green-500'')"
proof -
  have green: "js_le p (Finite 70) \<Longrightarrow> getProgressColor p = ''bg-green-500''"
    by (simp add: getProgressColor_def)
  have yellow: "js_lt (Finite 70) p \<and> js_le p (Finite 90)
                \<Longrightarrow> getProgressColor p = ''bg-yellow-500''"
    by (cases p) (auto simp: getProgressColor_def)
  have red: "js_lt (Finite 90) p \<Longrightarrow> getProgressColor p = ''bg-red-500''"
    by (cases p) (auto simp: getProgressColor_def)
  have mono: "js_lt lo hi \<Longrightarrow> severity (getProgressColor lo) \<le> severity (getProgressColor hi)"
    by (cases lo; cases hi) (auto simp: getProgressColor_def severity_def)
  show ?thesis using green yellow red mono
    by (simp add: getProgressColor_def getStatusIcon_def)
qed

text \<open>The theorem at 50, 80 and 95 percent.\<close>

theorem getProgressColor_bands_witness:
  "js_le (Finite 50) (Finite 70) \<and> getProgressColor (Finite 50) = ''bg-green-500''
   \<and> js_lt (Finite 70) (Finite 80) \<and> js_le (Finite 80) (Finite 90)
   \<and> getProgressColor (Finite 80) = ''bg-yellow-500''
   \<and> js_lt (Finite 90) (Finite 95) \<and> getProgressColor (Finite 95) = ''bg-red-500''
   \<and> js_lt (Finite 50) (Finite 95)
   \<and> severity (getProgressColor (Finite 50)) \<le> severity (getProgressColor (Finite 95))"
  using getProgressColor_bands [where p = "Finite 50" and lo = "Finite 50" and hi = "Finite 95"]
    getProgressColor_bands [where p = "Finite 80" and lo = "Finite 50" and hi = "Finite 95"]
    getProgressColor_bands [where p = "Finite 95" and lo = "Finite 50" and hi = "Finite 95"]
  by simp

text \<open>
  Claim C4 as stated fails: a category that is over budget is not always classified at
  or over the limit. A category with spending and no budget is over budget with 0 percent
  used; its bar is green while its icon is the alert.
\<close>

theorem over_budget_with_green_bar:
  "over_budget unbudgeted
   \<and> getProgressColor (percentage_used unbudgeted) = ''bg-green-500''
   \<and> getStatusIcon unbudgeted = AlertCircle ''w-5 h-5 text-red-500''"
  by (simp add: unbudgeted_def getProgressColor_def getStatusIcon_def)


section \<open>Editing the category of a transaction\<close>

text \<open>
  Claim C1, as amended. \<open>updateTransactionCategory\<close> sends the request and leaves the
  transaction list as it is while the request is in flight. If the call fails, or the
  service answers without \<open>success\<close>, the list stays as it was, so there is nothing to
  roll back. If the call succeeds, the category is set in every transaction with that
  \<open>ID\<close>, the row leaves edit mode, and one summary fetch is started for the month that was
  current when the edit was made.
\<close>

theorem updateTransactionCategory_after_confirmation:
  "updateTransactionCategory i c st
     = (st, [Started (UpdateTransactionCategory i c (currentMonth st))])
   \<and> state (step (EditCategory i c) a) = state a
   \<and> inflight (step (EditCategory i c) a)
       = inflight a @ [UpdateTransactionCategory i c (currentMonth (state a))]
   \<and> updateTransactionCategory_resume i c m (Failed f) st
       = (st, [ConsoleError ''Error updating category:'',
               Alert ''Failed to update category. Please try again.''])
   \<and> updateTransactionCategory_resume i c m (Json False) st = (st, [])
   \<and> updateTransactionCategory_resume i c m (Json True) st
       = (st\<lparr>transactions :=
               map (\<lambda>t. if js_strict_eq (ID t) i then t\<lparr>Category := c\<rparr> else t)
                 (transactions st),
             editingTransaction := None, loading := True\<rparr>,
          [Started (FetchSummary m)])
   \<and> transactions (state (step (Settle (length (inflight a)) (MutationReply (Failed f)))
         (step (EditCategory i c) a))) = transactions (state a)
   \<and> transactions (state (step (Settle (length (inflight a)) (MutationReply (Json True)))
         (step (EditCategory i c) a)))
       = map (\<lambda>t. if js_strict_eq (ID t) i then t\<lparr>Category := c\<rparr> else t)
           (transactions (state a))
   \<and> inflight (step (Settle (length (inflight a)) (MutationReply (Json True)))
         (step (EditCategory i c) a))
       = inflight a @ [FetchSummary (currentMonth (state a))]"
  by (simp add: updateTransactionCategory_def updateTransactionCategory_resume_def
        fetchSummary_def absorb_def nth_append)

text \<open>
  Claim C1 as stated fails: the change is not applied before the service confirms.
  Transaction 7 is in ``Shopping''; right after the edit to ``Dining & Restaurants'', with
  the request in flight, the list still shows ``Shopping''.
\<close>

theorem edit_waits_for_the_server:
  "map Category (transactions (state (step (EditCategory (Finite 7) ''Dining & Restaurants'')
       march_app))) = [''Shopping'']
   \<and> inflight (step (EditCategory (Finite 7) ''Dining & Restaurants'') march_app)
       = [UpdateTransactionCategory (Finite 7) ''Dining & Restaurants'' ''2024-03'']"
  by (simp add: march_app_def shoes_def initial_store_def updateTransactionCategory_def
        absorb_def)


section \<open>Results of superseded fetches\<close>

text \<open>
  Claim C2, as amended. A summary or transactions result is applied whenever its response
  arrives and parses, whether or not the month it was requested for is still the current
  one: the rest of each fetch function does not look at its month, and the response that
  arrives last stays in the store.
\<close>

theorem fetch_result_applied_without_month_check:
  "summary (fst (fetchSummary_resume m (Json d) st)) = d
   \<and> currentMonth (fst (fetchSummary_resume m (Json d) st)) = currentMonth st
   \<and> transactions (fst (fetchTransactions_resume m (Json t) st)) = t
   \<and> currentMonth (fst (fetchTransactions_resume m (Json t) st)) = currentMonth st
   \<and> fetchSummary_resume m r st = fetchSummary_resume m' r st
   \<and> fetchTransactions_resume m r' st = fetchTransactions_resume m' r' st"
  by (simp add: fetchSummary_resume_def fetchTransactions_resume_def setSummary_def
        calculateTotals_def Let_def)

lemma mount_eq:
  "mount nowISO =
     \<lparr>state = (initial_store nowISO)\<lparr>loading := True\<rparr>,
      inflight = [FetchSummary (take 7 nowISO), FetchTransactions (take 7 nowISO),
                  FetchBudgets, FetchAvailableMonths (take 7 nowISO)],
      notices = []\<rparr>"
  by (simp add: mount_def absorb_def seq_def month_effect_def fetchSummary_def
        fetchTransactions_def fetchBudgets_def fetchAvailableMonths_def calculateTotals_def
        initial_store_def js_sub_def round_double_def Let_def)

text \<open>
  Claim C2 as stated fails. The dashboard mounts in January 2024; February is selected,
  then March while the fetches for February are in flight (the fifth request in flight is
  the summary fetch for February). When that fetch then resolves, the current month is
  March and the summary in the store is February's.
\<close>

theorem stale_summary_overwrites_new_month:
  "inflight (run [SelectMonth ''2024-02'', SelectMonth ''2024-03'']
       (mount ''2024-01-15T09:30:00.000Z'')) ! 4 = FetchSummary ''2024-02''
   \<and> currentMonth (state (run [SelectMonth ''2024-02'', SelectMonth ''2024-03'',
         Settle 4 (SummaryReply (Json february))] (mount ''2024-01-15T09:30:00.000Z'')))
       = ''2024-03''
   \<and> summary (state (run [SelectMonth ''2024-02'', SelectMonth ''2024-03'',
         Settle 4 (SummaryReply (Json february))] (mount ''2024-01-15T09:30:00.000Z'')))
       = february"
  by (simp add: mount_eq initial_store_def absorb_def seq_def month_effect_def
        setCurrentMonth_def fetchSummary_def fetchTransactions_def fetchBudgets_def
        fetchAvailableMonths_def fetchSummary_resume_def setSummary_def calculateTotals_def
        Let_def)


section \<open>Selecting the newest month\<close>

lemma month_effect_eq:
  "month_effect st =
     (st\<lparr>loading := True\<rparr>,
      [Started (FetchSummary (currentMonth st)), Started (FetchTransactions (currentMonth st)),
       Started FetchBudgets, Started (FetchAvailableMonths (currentMonth st))])"
  by (simp add: month_effect_def seq_def fetchSummary_def fetchTransactions_def
        fetchBudgets_def fetchAvailableMonths_def)

text \<open>
  Claim C5, as amended. A successful months fetch stores the list, and it selects the
  first (newest) month of the list only when the current month of the render that started
  the fetch is the empty string and the list is not empty; if that changes the current
  month, the four fetches are started for it. A fetch started while a month is selected
  never changes the selection. The dashboard starts with the calendar month selected
  (the first seven characters of the ISO date), so the fetch started at mount selects
  nothing.
\<close>

theorem fetchAvailableMonths_selects_only_when_empty:
  "availableMonths (fst (fetchAvailableMonths_resume cm (Json data) st)) = data
   \<and> currentMonth (fst (fetchAvailableMonths_resume cm (Json data) st))
       = (if cm = '''' \<and> data \<noteq> [] then hd data else currentMonth st)
   \<and> (cm \<noteq> '''' \<longrightarrow>
        fetchAvailableMonths_resume cm (Json data) st = (st\<lparr>availableMonths := data\<rparr>, []))
   \<and> (cm = '''' \<and> data \<noteq> [] \<and> hd data \<noteq> currentMonth st \<longrightarrow>
        requests_of (snd (fetchAvailableMonths_resume cm (Json data) st))
          = [FetchSummary (hd data), FetchTransactions (hd data), FetchBudgets,
             FetchAvailableMonths (hd data)])
   \<and> (nowISO \<noteq> '''' \<longrightarrow>
        inflight (mount nowISO) ! 3 = FetchAvailableMonths (take 7 nowISO)
        \<and> take 7 nowISO \<noteq> ''''
        \<and> state (step (Settle 3 (MonthsReply (Json data))) (mount nowISO))
            = (state (mount nowISO))\<lparr>availableMonths := data\<rparr>)"
proof -
  have a: "availableMonths (fst (fetchAvailableMonths_resume cm (Json data) st)) = data"
    by (simp add: fetchAvailableMonths_resume_def setCurrentMonth_def month_effect_eq)
  have b: "currentMonth (fst (fetchAvailableMonths_resume cm (Json data) st))
       = (if cm = '''' \<and> data \<noteq> [] then hd data else currentMonth st)"
    by (cases data) (simp_all add: fetchAvailableMonths_resume_def setCurrentMonth_def
          month_effect_eq)
  have c: "cm \<noteq> '''' \<Longrightarrow>
        fetchAvailableMonths_resume cm (Json data) st = (st\<lparr>availableMonths := data\<rparr>, [])"
    by (simp add: fetchAvailableMonths_resume_def)
  have d: "cm = '''' \<and> data \<noteq> [] \<and> hd data \<noteq> currentMonth st \<Longrightarrow>
        requests_of (snd (fetchAvailableMonths_resume cm (Json data) st))
          = [FetchSummary (hd data), FetchTransactions (hd data), FetchBudgets,
             FetchAvailableMonths (hd data)]"
    by (cases data) (simp_all add: fetchAvailableMonths_resume_def setCurrentMonth_def
          month_effect_eq)
  have e: "nowISO \<noteq> '''' \<Longrightarrow>
        inflight (mount nowISO) ! 3 = FetchAvailableMonths (take 7 nowISO)
        \<and> take 7 nowISO \<noteq> ''''
        \<and> state (step (Settle 3 (MonthsReply (Json data))) (mount nowISO))
            = (state (mount nowISO))\<lparr>availableMonths := data\<rparr>"
    by (simp add: mount_eq absorb_def fetchAvailableMonths_resume_def)
  show ?thesis using a b c d e by blast
qed

text \<open>
  The theorem at a fetch started in March 2024, at one started with no month, and at the
  fetch of a dashboard mounted in November 2026.
\<close>

theorem fetchAvailableMonths_selects_only_when_empty_witness:
  "currentMonth (fst (fetchAvailableMonths_resume ''2024-03'' (Json [''2024-04'', ''2024-03''])
       (state march_app))) = ''2024-03''
   \<and> currentMonth (fst (fetchAvailableMonths_resume '''' (Json [''2024-04'', ''2024-03''])
       (state march_app))) = ''2024-04''
   \<and> requests_of (snd (fetchAvailableMonths_resume '''' (Json [''2024-04'', ''2024-03''])
       (state march_app)))
       = [FetchSummary ''2024-04'', FetchTransactions ''2024-04'', FetchBudgets,
          FetchAvailableMonths ''2024-04'']
   \<and> currentMonth (state (step (Settle 3 (MonthsReply (Json [''2024-04'', ''2024-03''])))
       (mount ''2026-11-03T09:30:00.000Z''))) = ''2026-11''"
proof -
  have m: "currentMonth (state march_app) = ''2024-03''"
    by (simp add: march_app_def initial_store_def)
  have n: "currentMonth (state (mount ''2026-11-03T09:30:00.000Z'')) = ''2026-11''"
    by (simp add: mount_eq initial_store_def)
  show ?thesis
    using fetchAvailableMonths_selects_only_when_empty
        [where cm = "''2024-03''" and data = "[''2024-04'', ''2024-03'']"
           and st = "state march_app" and nowISO = "''2026-11-03T09:30:00.000Z''"]
      fetchAvailableMonths_selects_only_when_empty
        [where cm = "''''" and data = "[''2024-04'', ''2024-03'']"
           and st = "state march_app" and nowISO = "''2026-11-03T09:30:00.000Z''"]
    by (simp add: m n)
qed

text \<open>
  Claim C5 as stated fails. A dashboard mounted on 3 November 2026, where the user has
  selected nothing, receives the months 2024-03 and 2024-02 from its first months fetch:
  the list is stored and the current month stays 2026-11.
\<close>

theorem first_months_fetch_keeps_calendar_month:
  "inflight (mount ''2026-11-03T09:30:00.000Z'') ! 3 = FetchAvailableMonths ''2026-11''
   \<and> availableMonths (state (step (Settle 3 (MonthsReply (Json [''2024-03'', ''2024-02''])))
         (mount ''2026-11-03T09:30:00.000Z''))) = [''2024-03'', ''2024-02'']
   \<and> currentMonth (state (step (Settle 3 (MonthsReply (Json [''2024-03'', ''2024-02''])))
         (mount ''2026-11-03T09:30:00.000Z''))) = ''2026-11''"
  by (simp add: mount_eq absorb_def fetchAvailableMonths_resume_def initial_store_def)


section \<open>Saving the budgets\<close>

text \<open>
  Claim C6. \<open>saveBudgets\<close> sends the draft. Whatever the outcome, the draft in the store
  is left as it is; on a failure nothing in the store changes. On success the confirmed
  map becomes the draft that was sent, edit mode ends, and exactly one summary fetch is
  started.
\<close>

theorem saveBudgets_keeps_draft_on_failure:
  "saveBudgets st = (st, [Started (SaveBudgets (tempBudgets st) (currentMonth st))])
   \<and> saveBudgets_resume draft m (Failed f) st
       = (st, [ConsoleError ''Error saving budgets:'',
               Alert ''Failed to update budgets. Please try again.''])
   \<and> tempBudgets (fst (saveBudgets_resume draft m r st)) = tempBudgets st
   \<and> saveBudgets_resume draft m (Json True) st
       = (st\<lparr>budgets := draft, editingBudgets := False, loading := True\<rparr>,
          [Started (FetchSummary m), Alert ''Budgets updated successfully''])
   \<and> requests_of (snd (saveBudgets_resume draft m (Json True) st)) = [FetchSummary m]
   \<and> state (step (Settle (length (inflight a)) (MutationReply (Failed f)))
         (step ClickSaveBudgets a)) = state a
   \<and> budgets (state (step (Settle (length (inflight a)) (MutationReply (Json True)))
         (step ClickSaveBudgets a))) = tempBudgets (state a)
   \<and> editingBudgets (state (step (Settle (length (inflight a)) (MutationReply (Json True)))
         (step ClickSaveBudgets a))) = False
   \<and> inflight (step (Settle (length (inflight a)) (MutationReply (Json True)))
         (step ClickSaveBudgets a)) = inflight a @ [FetchSummary (currentMonth (state a))]"
proof -
  have "tempBudgets (fst (saveBudgets_resume draft m r st)) = tempBudgets st"
    by (cases r) (simp_all add: saveBudgets_resume_def seq_def fetchSummary_def)
  then show ?thesis
    by (simp add: saveBudgets_def saveBudgets_resume_def seq_def fetchSummary_def absorb_def
          nth_append)
qed


section \<open>Failed reads\<close>

lemma cells_of_fetchSummary:
  "cells_of (fst (fetchSummary_resume m r st))
     = fetchSummary_stores (map_response summary_json r) (cells_of st)"
  by (cases r)
    (simp_all add: fetchSummary_resume_def fetchSummary_stores_def setSummary_def
       calculateTotals_def cells_of_def Let_def)

lemma cells_of_fetchTransactions:
  "cells_of (fst (fetchTransactions_resume m r st))
     = fetchTransactions_stores (map_response transactions_json r) (cells_of st)"
  by (cases r)
    (simp_all add: fetchTransactions_resume_def fetchTransactions_stores_def cells_of_def)

lemma cells_of_fetchBudgets:
  "cells_of (fst (fetchBudgets_resume r st))
     = fetchBudgets_stores (map_response budgets_json r) (cells_of st)"
  by (cases r) (simp_all add: fetchBudgets_resume_def fetchBudgets_stores_def cells_of_def)

lemma cells_of_fetchAvailableMonths:
  "cells_of (fst (fetchAvailableMonths_resume m r st))
     = fetchAvailableMonths_stores (map_response months_json r) (cells_of st)"
  by (cases r)
    (simp_all add: fetchAvailableMonths_resume_def fetchAvailableMonths_stores_def
       setCurrentMonth_def month_effect_eq cells_of_def)

text \<open>
  Claim C7, as amended. A summary, transactions, budgets or months fetch that fails by a
  rejected request, a status that is not ok or a body that does not parse leaves the loaded
  data as it was: the functions change no cell (the summary fetch only stops the spinner),
  and in the running component no settling of a read with such a failure changes what is
  loaded. A body that parses is stored without a check of its shape: whatever JSON value it
  holds is put into the cell, in place of the data loaded before. On bodies of the expected
  shape that is what the functions above do.
\<close>

theorem failed_fetch_keeps_state:
  "fetchSummary_resume m (Failed f) st
     = (st\<lparr>loading := False\<rparr>, [ConsoleError ''Error fetching summary:''])
   \<and> fetchTransactions_resume m (Failed f) st
       = (st, [ConsoleError ''Error fetching transactions:''])
   \<and> fetchBudgets_resume (Failed f) st = (st, [ConsoleError ''Error fetching budgets:''])
   \<and> fetchAvailableMonths_resume m (Failed f) st
       = (st, [ConsoleError ''Error fetching months:''])
   \<and> loaded (state (step (Settle i (SummaryReply (Failed f))) a)) = loaded (state a)
   \<and> loaded (state (step (Settle i (TransactionsReply (Failed f))) a)) = loaded (state a)
   \<and> loaded (state (step (Settle i (BudgetsReply (Failed f))) a)) = loaded (state a)
   \<and> loaded (state (step (Settle i (MonthsReply (Failed f))) a)) = loaded (state a)
   \<and> fetchSummary_stores (Failed f) cs = cs
   \<and> fetchTransactions_stores (Failed f) cs = cs
   \<and> fetchBudgets_stores (Failed f) cs = cs
   \<and> fetchAvailableMonths_stores (Failed f) cs = cs
   \<and> fetchSummary_stores (Json body) cs = cs\<lparr>summary_cell := body\<rparr>
   \<and> fetchTransactions_stores (Json body) cs = cs\<lparr>transactions_cell := body\<rparr>
   \<and> fetchBudgets_stores (Json body) cs = cs\<lparr>budgets_cell := body, tempBudgets_cell := body\<rparr>
   \<and> fetchAvailableMonths_stores (Json body) cs = cs\<lparr>availableMonths_cell := body\<rparr>
   \<and> cells_of (fst (fetchSummary_resume m rs st))
       = fetchSummary_stores (map_response summary_json rs) (cells_of st)
   \<and> cells_of (fst (fetchTransactions_resume m rt st))
       = fetchTransactions_stores (map_response transactions_json rt) (cells_of st)
   \<and> cells_of (fst (fetchBudgets_resume rb st))
       = fetchBudgets_stores (map_response budgets_json rb) (cells_of st)
   \<and> cells_of (fst (fetchAvailableMonths_resume m rm st))
       = fetchAvailableMonths_stores (map_response months_json rm) (cells_of st)"
proof -
  have s: "loaded (state (step (Settle i (SummaryReply (Failed f))) a)) = loaded (state a)"
    by (cases "inflight a ! i")
      (simp_all add: absorb_def fetchSummary_resume_def loaded_def)
  have t: "loaded (state (step (Settle i (TransactionsReply (Failed f))) a)) = loaded (state a)"
    by (cases "inflight a ! i")
      (simp_all add: absorb_def fetchTransactions_resume_def loaded_def)
  have b: "loaded (state (step (Settle i (BudgetsReply (Failed f))) a)) = loaded (state a)"
    by (cases "inflight a ! i")
      (simp_all add: absorb_def fetchBudgets_resume_def loaded_def)
  have m: "loaded (state (step (Settle i (MonthsReply (Failed f))) a)) = loaded (state a)"
    by (cases "inflight a ! i")
      (simp_all add: absorb_def fetchAvailableMonths_resume_def loaded_def)
  have typed: "fetchSummary_resume m (Failed f) st
       = (st\<lparr>loading := False\<rparr>, [ConsoleError ''Error fetching summary:''])
     \<and> fetchTransactions_resume m (Failed f) st
       = (st, [ConsoleError ''Error fetching transactions:''])
     \<and> fetchBudgets_resume (Failed f) st = (st, [ConsoleError ''Error fetching budgets:''])
     \<and> fetchAvailableMonths_resume m (Failed f) st
       = (st, [ConsoleError ''Error fetching months:''])"
    by (simp add: fetchSummary_resume_def fetchTransactions_resume_def fetchBudgets_resume_def
          fetchAvailableMonths_resume_def)
  have raw: "fetchSummary_stores (Failed f) cs = cs
     \<and> fetchTransactions_stores (Failed f) cs = cs
     \<and> fetchBudgets_stores (Failed f) cs = cs
     \<and> fetchAvailableMonths_stores (Failed f) cs = cs
     \<and> fetchSummary_stores (Json body) cs = cs\<lparr>summary_cell := body\<rparr>
     \<and> fetchTransactions_stores (Json body) cs = cs\<lparr>transactions_cell := body\<rparr>
     \<and> fetchBudgets_stores (Json body) cs
         = cs\<lparr>budgets_cell := body, tempBudgets_cell := body\<rparr>
     \<and> fetchAvailableMonths_stores (Json body) cs = cs\<lparr>availableMonths_cell := body\<rparr>"
    by (simp add: fetchSummary_stores_def fetchTransactions_stores_def fetchBudgets_stores_def
          fetchAvailableMonths_stores_def)
  show ?thesis
    using s t b m typed raw cells_of_fetchSummary [of m rs st]
      cells_of_fetchTransactions [of m rt st] cells_of_fetchBudgets [of rb st]
      cells_of_fetchAvailableMonths [of m rm st]
    by blast
qed

text \<open>
  Claim C7 as stated fails for a response that is malformed: one with status 200 whose
  body parses and has another shape. The dashboard of February 2024 has its summary
  loaded; a summary fetch then receives the body \<open>{"error": "Database unavailable"}\<close>.
  No failure is raised, and the summary cell holds the error object in place of
  February's summary.
\<close>

theorem misshaped_body_replaces_summary:
  "summary february_store = february
   \<and> summary_cell (cells_of february_store) = summary_json february
   \<and> summary_cell (fetchSummary_stores (Json error_body) (cells_of february_store))
       = error_body
   \<and> error_body \<noteq> summary_json february"
  by (simp add: february_store_def fetchSummary_resume_def setSummary_def calculateTotals_def
        Let_def cells_of_def fetchSummary_stores_def error_body_def summary_json_def
        february_def)


section \<open>A budgets fetch and the draft\<close>

text \<open>
  Claim C10. A successful budgets fetch sets the confirmed map and the draft to the
  fetched map in one step, so the two are equal afterwards, also when the user is in
  edit mode and has typed into the draft.
\<close>

theorem fetchBudgets_overwrites_draft:
  "fetchBudgets_resume (Json data) st = (st\<lparr>budgets := data, tempBudgets := data\<rparr>, [])
   \<and> budgets (fst (fetchBudgets_resume (Json data) st)) = data
   \<and> tempBudgets (fst (fetchBudgets_resume (Json data) st)) = data
   \<and> tempBudgets (fst (fetchBudgets_resume (Json data) st))
       = budgets (fst (fetchBudgets_resume (Json data) st))
   \<and> tempBudgets (fst (fetchBudgets_resume (Json data)
         (fst (changeBudget c v (fst (beginBudgetEdit st)))))) = data
   \<and> editingBudgets (fst (fetchBudgets_resume (Json data)
         (fst (changeBudget c v (fst (beginBudgetEdit st)))))) = True"
  by (simp add: fetchBudgets_resume_def changeBudget_def beginBudgetEdit_def Let_def)


section \<open>The session\<close>

lemma session_step_token:
  "isAuthenticated s = (token s \<noteq> None)
   \<Longrightarrow> isAuthenticated (session_step e s) = (token (session_step e s) \<noteq> None)"
proof (cases e)
  case Restore
  assume "isAuthenticated s = (token s \<noteq> None)"
  then show ?thesis using Restore
    by (cases "localStorage s ''access_token''") (simp_all add: restoreSession_def Let_def)
qed (simp_all add: login_def logout_def reload_def initial_session_def)

lemma session_run_token:
  "isAuthenticated s = (token s \<noteq> None)
   \<Longrightarrow> isAuthenticated (session_run es s) = (token (session_run es s) \<noteq> None)"
proof (induction es arbitrary: s)
  case Nil
  then show ?case by simp
next
  case (Cons e es)
  have "isAuthenticated (session_step e s) = (token (session_step e s) \<noteq> None)"
    using Cons.prems by (rule session_step_token)
  then show ?case using Cons.IH by simp
qed

lemma reachable_token:
  "isAuthenticated (session_run es (initial_session storage))
     = (token (session_run es (initial_session storage)) \<noteq> None)"
  by (rule session_run_token) (simp add: initial_session_def)

lemma session_step_truthy:
  "passes_token e \<Longrightarrow> isAuthenticated s = truthy (token s)
   \<Longrightarrow> isAuthenticated (session_step e s) = truthy (token (session_step e s))"
proof (cases e)
  case Restore
  assume "isAuthenticated s = truthy (token s)"
  then show ?thesis using Restore
    by (cases "localStorage s ''access_token''") (simp_all add: restoreSession_def Let_def)
qed (simp_all add: login_def logout_def reload_def initial_session_def)

lemma session_run_truthy:
  "list_all passes_token es \<Longrightarrow> isAuthenticated s = truthy (token s)
   \<Longrightarrow> isAuthenticated (session_run es s) = truthy (token (session_run es s))"
proof (induction es arbitrary: s)
  case Nil
  then show ?case by simp
next
  case (Cons e es)
  have p: "passes_token e" "list_all passes_token es" using Cons.prems(1) by simp_all
  have "isAuthenticated (session_step e s) = truthy (token (session_step e s))"
    using p(1) Cons.prems(2) by (rule session_step_truthy)
  then show ?case using Cons.IH [OF p(2)] by simp
qed

lemma authorization_header:
  "map_of (getAuthHeaders s) ''Authorization''
     = (if truthy (token s) then Some (''Bearer '' @ the (token s)) else None)"
  by (simp add: getAuthHeaders_def Let_def)

text \<open>
  Claim C8. \<open>getAuthHeaders\<close> reads the token and returns the headers; it writes no cell
  and no storage. For every session state its result holds the \<open>Authorization\<close> bearer
  credential of the stored token exactly when a token is present, that is, when the
  token cell holds a string that is not empty; with no token there is the content type
  and nothing else. In every session that a run of the provider reaches, an
  unauthenticated session has no \<open>Authorization\<close> header, and when every login of the
  run passes a token the header is there exactly when the session is authenticated.
\<close>

theorem getAuthHeaders_bearer:
  "map_of (getAuthHeaders s) ''Authorization''
     = (if truthy (token s) then Some (''Bearer '' @ the (token s)) else None)
   \<and> map_of (getAuthHeaders s) ''Content-Type'' = Some ''application/json''
   \<and> (\<not> truthy (token s) \<longrightarrow> getAuthHeaders s = [(''Content-Type'', ''application/json'')])
   \<and> (\<not> isAuthenticated (session_run es (initial_session storage)) \<longrightarrow>
        map_of (getAuthHeaders (session_run es (initial_session storage))) ''Authorization''
          = None)
   \<and> (list_all passes_token es \<longrightarrow>
        map_of (getAuthHeaders (session_run es (initial_session storage))) ''Authorization''
          = (if isAuthenticated (session_run es (initial_session storage))
             then Some (''Bearer '' @ the (token (session_run es (initial_session storage))))
             else None))
   \<and> map_of (getAuthHeaders (fst (login t s))) ''Authorization''
       = (if t = '''' then None else Some (''Bearer '' @ t))"
proof -
  let ?s = "session_run es (initial_session storage)"
  have a: "\<not> truthy (token s) \<Longrightarrow> getAuthHeaders s = [(''Content-Type'', ''application/json'')]"
    by (simp add: getAuthHeaders_def Let_def)
  have b: "\<not> isAuthenticated ?s \<Longrightarrow> map_of (getAuthHeaders ?s) ''Authorization'' = None"
    using reachable_token [of es storage] by (simp add: authorization_header)
  have "list_all passes_token es \<Longrightarrow> isAuthenticated ?s = truthy (token ?s)"
    by (rule session_run_truthy) (simp_all add: initial_session_def)
  then have c: "list_all passes_token es \<Longrightarrow>
        map_of (getAuthHeaders ?s) ''Authorization''
          = (if isAuthenticated ?s then Some (''Bearer '' @ the (token ?s)) else None)"
    by (simp add: authorization_header)
  have d: "map_of (getAuthHeaders (fst (login t s))) ''Authorization''
           = (if t = '''' then None else Some (''Bearer '' @ t))"
    by (simp add: authorization_header login_def)
  have e: "map_of (getAuthHeaders s) ''Content-Type'' = Some ''application/json''"
    by (simp add: getAuthHeaders_def Let_def)
  have f: "map_of (getAuthHeaders s) ''Authorization''
     = (if truthy (token s) then Some (''Bearer '' @ the (token s)) else None)"
    by (rule authorization_header)
  show ?thesis using a b c d e f by blast
qed

text \<open>
  The theorem at the session after a login with the token \<open>abc\<close>, and at the session
  after the logout that follows.
\<close>

theorem getAuthHeaders_bearer_witness:
  "list_all passes_token [Restore, Login ''abc'']
   \<and> isAuthenticated (session_run [Restore, Login ''abc''] fresh_browser)
   \<and> map_of (getAuthHeaders (session_run [Restore, Login ''abc''] fresh_browser))
         ''Authorization'' = Some ''Bearer abc''
   \<and> isAuthenticated (session_run [Restore, Login ''abc'', Logout] fresh_browser) = False
   \<and> truthy (token (session_run [Restore, Login ''abc'', Logout] fresh_browser)) = False
   \<and> map_of (getAuthHeaders (session_run [Restore, Login ''abc'', Logout] fresh_browser))
         ''Authorization'' = None
   \<and> getAuthHeaders (session_run [Restore, Login ''abc'', Logout] fresh_browser)
       = [(''Content-Type'', ''application/json'')]"
proof -
  have p: "list_all passes_token [Restore, Login ''abc'']" by simp
  have i: "isAuthenticated (session_run [Restore, Login ''abc''] fresh_browser)"
    "the (token (session_run [Restore, Login ''abc''] fresh_browser)) = ''abc''"
    by (simp_all add: login_def restoreSession_def fresh_browser_def initial_session_def
          Let_def)
  have o: "isAuthenticated (session_run [Restore, Login ''abc'', Logout] fresh_browser) = False"
    "truthy (token (session_run [Restore, Login ''abc'', Logout] fresh_browser)) = False"
    by (simp_all add: login_def logout_def restoreSession_def fresh_browser_def
          initial_session_def Let_def)
  have "map_of (getAuthHeaders (session_run [Restore, Login ''abc'']
            (initial_session Map.empty))) ''Authorization''
          = (if isAuthenticated (session_run [Restore, Login ''abc''] (initial_session Map.empty))
             then Some (''Bearer '' @ the (token (session_run [Restore, Login ''abc'']
                    (initial_session Map.empty))))
             else None)"
    using getAuthHeaders_bearer
        [where es = "[Restore, Login ''abc'']" and storage = "Map.empty"] p
    by blast
  then have x: "map_of (getAuthHeaders (session_run [Restore, Login ''abc''] fresh_browser))
             ''Authorization'' = Some ''Bearer abc''"
    using i by (simp only: fresh_browser_def if_True) simp
  have "\<not> isAuthenticated (session_run [Restore, Login ''abc'', Logout]
            (initial_session Map.empty))"
    using o(1) by (simp only: fresh_browser_def simp_thms)
  then have "map_of (getAuthHeaders (session_run [Restore, Login ''abc'', Logout]
            (initial_session Map.empty))) ''Authorization'' = None"
    using getAuthHeaders_bearer
        [where es = "[Restore, Login ''abc'', Logout]" and storage = "Map.empty"]
    by blast
  then have y: "map_of (getAuthHeaders (session_run [Restore, Login ''abc'', Logout]
             fresh_browser)) ''Authorization'' = None"
    by (simp only: fresh_browser_def)
  have z: "getAuthHeaders (session_run [Restore, Login ''abc'', Logout] fresh_browser)
             = [(''Content-Type'', ''application/json'')]"
    using getAuthHeaders_bearer
        [where s = "session_run [Restore, Login ''abc'', Logout] fresh_browser"] o(2)
    by blast
  show ?thesis using p i(1) o x y z by blast
qed

text \<open>
  Claim C9. \<open>login\<close> takes every session to an authenticated one with the given token,
  and writes the token to storage. \<open>logout\<close> takes every session to an unauthenticated
  one with no token, and removes the token from storage. The mount effect authenticates,
  with the persisted token, exactly when a persisted token exists: the effect reads the
  stored string for truthiness, so an empty string is no token. Otherwise it leaves the
  session as it is. It never writes to storage, and none of the three starts a request.
  In every session that a run of the provider reaches, the session is authenticated
  exactly when it holds a token: the two states are the only ones.
\<close>

theorem session_transitions:
  "isAuthenticated (fst (login t s))
   \<and> token (fst (login t s)) = Some t
   \<and> localStorage (fst (login t s)) = (localStorage s)(''access_token'' \<mapsto> t)
   \<and> snd (login t s) = []
   \<and> isAuthenticated (fst (logout s)) = False
   \<and> token (fst (logout s)) = None
   \<and> localStorage (fst (logout s)) = (localStorage s)(''access_token'' := None)
   \<and> snd (logout s) = []
   \<and> restoreSession s
       = (if truthy (localStorage s ''access_token'')
          then (s\<lparr>token := localStorage s ''access_token'', isAuthenticated := True\<rparr>, [])
          else (s, []))
   \<and> isAuthenticated (fst (restoreSession (initial_session storage)))
       = truthy (storage ''access_token'')
   \<and> token (fst (restoreSession (initial_session storage)))
       = (if truthy (storage ''access_token'') then storage ''access_token'' else None)
   \<and> localStorage (fst (restoreSession s)) = localStorage s
   \<and> snd (restoreSession s) = []
   \<and> isAuthenticated (session_run es (initial_session storage))
       = (token (session_run es (initial_session storage)) \<noteq> None)
   \<and> (storage ''access_token'' \<noteq> Some '''' \<longrightarrow>
        isAuthenticated (fst (restoreSession (initial_session storage)))
          = (storage ''access_token'' \<noteq> None)
        \<and> token (fst (restoreSession (initial_session storage))) = storage ''access_token'')"
proof -
  have r: "isAuthenticated (session_run es (initial_session storage))
       = (token (session_run es (initial_session storage)) \<noteq> None)"
    by (rule reachable_token)
  have v: "storage ''access_token'' \<noteq> Some '''' \<Longrightarrow>
        isAuthenticated (fst (restoreSession (initial_session storage)))
          = (storage ''access_token'' \<noteq> None)
        \<and> token (fst (restoreSession (initial_session storage))) = storage ''access_token''"
    by (cases "storage ''access_token''")
      (simp_all add: restoreSession_def initial_session_def Let_def)
  show ?thesis using r v
    by (simp add: login_def logout_def restoreSession_def initial_session_def Let_def)
qed

text \<open>
  The theorem at a reload after a login with the token \<open>abc\<close>, where the token is
  restored, and at a browser with nothing stored, where the session stays
  unauthenticated.
\<close>

theorem session_transitions_witness:
  "localStorage (fst (login ''abc'' fresh_browser)) ''access_token'' = Some ''abc''
   \<and> isAuthenticated (fst (restoreSession (reload (fst (login ''abc'' fresh_browser)))))
   \<and> token (fst (restoreSession (reload (fst (login ''abc'' fresh_browser))))) = Some ''abc''
   \<and> localStorage fresh_browser ''access_token'' = None
   \<and> isAuthenticated (fst (restoreSession fresh_browser)) = False
   \<and> token (fst (restoreSession fresh_browser)) = None"
proof -
  have a: "localStorage (fst (login ''abc'' fresh_browser)) ''access_token'' = Some ''abc''"
    "localStorage fresh_browser ''access_token'' = None"
    by (simp_all add: login_def fresh_browser_def initial_session_def)
  have b: "reload (fst (login ''abc'' fresh_browser))
           = initial_session (localStorage (fst (login ''abc'' fresh_browser)))"
    "fresh_browser = initial_session (localStorage fresh_browser)"
    by (simp_all add: reload_def fresh_browser_def initial_session_def)
  have n: "localStorage (fst (login ''abc'' fresh_browser)) ''access_token'' \<noteq> Some ''''"
    "localStorage fresh_browser ''access_token'' \<noteq> Some ''''"
    by (simp_all add: a)
  have "isAuthenticated (fst (restoreSession (initial_session
              (localStorage (fst (login ''abc'' fresh_browser))))))
          = (localStorage (fst (login ''abc'' fresh_browser)) ''access_token'' \<noteq> None)
        \<and> token (fst (restoreSession (initial_session
              (localStorage (fst (login ''abc'' fresh_browser))))))
          = localStorage (fst (login ''abc'' fresh_browser)) ''access_token''"
    using session_transitions
        [where storage = "localStorage (fst (login ''abc'' fresh_browser))"] n(1)
    by blast
  then have c: "isAuthenticated (fst (restoreSession (reload (fst (login ''abc''
              fresh_browser)))))
           \<and> token (fst (restoreSession (reload (fst (login ''abc'' fresh_browser)))))
               = Some ''abc''"
    by (simp add: a(1) b(1))
  have "isAuthenticated (fst (restoreSession (initial_session (localStorage fresh_browser))))
          = (localStorage fresh_browser ''access_token'' \<noteq> None)
        \<and> token (fst (restoreSession (initial_session (localStorage fresh_browser))))
          = localStorage fresh_browser ''access_token''"
    using session_transitions [where storage = "localStorage fresh_browser"] n(2)
    by blast
  then have d: "isAuthenticated (fst (restoreSession fresh_browser)) = False
           \<and> token (fst (restoreSession fresh_browser)) = None"
    using b(2) by (simp add: a(2))
  show ?thesis using a c d by blast
qed

end
